theory Spec2Isabelle
  imports Complex_Main "HOL-Library.Finite_Map"
begin

text \<open>
  An embedding of \<open>cctr\<close>, a command-line translator that sends a prompt to a hosted
  agent: \<open>translator.py\<close> (language detection, the translation client) and
  \<open>config.py\<close> (the YAML-backed preferences).  Functions keep their names
  without the leading underscore; \<open>Config.set\<close> is \<open>set_key\<close>, the attribute
  \<open>Config._config\<close> is \<open>config_data\<close>, and the setters of the two properties are
  \<open>set_native_language\<close> and \<open>set_default_model\<close>.  An exception is a value \<open>Inl e\<close>
  of a sum type, and what a function changes outside itself is passed in and returned.
\<close>

section \<open>Python strings\<close>

text \<open>
  A Python \<open>str\<close> is a sequence of Unicode code points; \<open>ord\<close> of a character is
  its code point.  A string is modelled by the list of its code points, so that \<open>ord\<close>
  is the identity and \<open>len\<close> is \<open>length\<close>.  The literals of the source are ASCII
  and are written \<open>py ''...''\<close>.
\<close>

type_synonym pystr = "nat list"

definition py :: "string \<Rightarrow> pystr" where
  "py s = map of_char s"

section \<open>translator.py: LanguageDetector\<close>

text \<open>
  \<open>LanguageDetector.detect\<close>: the outer loop runs over the characters of the text, the
  inner loop over \<open>japanese_ranges\<close>; the first character inside a range returns
  \<open>"ja"\<close>, and a text with no such character falls through to \<open>"en"\<close>.
\<close>

definition japanese_ranges :: "(nat \<times> nat) list" where
  "japanese_ranges = [(0x3040, 0x309F), (0x30A0, 0x30FF), (0x4E00, 0x9FFF)]"

fun in_ranges :: "nat \<Rightarrow> (nat \<times> nat) list \<Rightarrow> bool" where
  "in_ranges code [] = False"
| "in_ranges code ((start, stop) # ranges) =
     (if start \<le> code \<and> code \<le> stop then True else in_ranges code ranges)"

fun detect :: "pystr \<Rightarrow> pystr" where
  "detect [] = py ''en''"
| "detect (char # rest) =
     (if in_ranges char japanese_ranges then py ''ja'' else detect rest)"

section \<open>translator.py: the tables of Translator\<close>

definition MODEL_ALIASES :: "(pystr \<times> pystr) list" where
  "MODEL_ALIASES =
     [(py ''haiku'', py ''claude-3-5-haiku-20241022''),
      (py ''sonnet'', py ''claude-3-5-sonnet-20241022''),
      (py ''opus'', py ''claude-opus-4-20250514'')]"

definition LANGUAGE_NAMES :: "(pystr \<times> pystr) list" where
  "LANGUAGE_NAMES =
     [(py ''en'', py ''English''),
      (py ''ja'', py ''Japanese''),
      (py ''zh'', py ''Chinese''),
      (py ''ko'', py ''Korean''),
      (py ''es'', py ''Spanish''),
      (py ''fr'', py ''French''),
      (py ''de'', py ''German''),
      (py ''it'', py ''Italian''),
      (py ''pt'', py ''Portuguese''),
      (py ''ru'', py ''Russian'')]"

text \<open>\<open>d.get(key, default)\<close> on a dictionary literal with string keys.\<close>

definition table_get :: "(pystr \<times> pystr) list \<Rightarrow> pystr \<Rightarrow> pystr \<Rightarrow> pystr" where
  "table_get d k dflt = (case map_of d k of Some v \<Rightarrow> v | None \<Rightarrow> dflt)"

definition resolve_model :: "pystr \<Rightarrow> pystr" where
  "resolve_model m = table_get MODEL_ALIASES m m"

definition get_language_name :: "pystr \<Rightarrow> pystr" where
  "get_language_name code = table_get LANGUAGE_NAMES code code"

section \<open>The values the client handles\<close>

text \<open>
  \<open>str.strip()\<close> removes the leading and trailing characters for which
  \<open>str.isspace\<close> holds; the code points below are CPython's whitespace table.
\<close>

definition isspace :: "nat \<Rightarrow> bool" where
  "isspace c \<longleftrightarrow>
     (0x09 \<le> c \<and> c \<le> 0x0D) \<or> (0x1C \<le> c \<and> c \<le> 0x20) \<or> c = 0x85 \<or> c = 0xA0
     \<or> c = 0x1680 \<or> (0x2000 \<le> c \<and> c \<le> 0x200A) \<or> c = 0x2028 \<or> c = 0x2029
     \<or> c = 0x202F \<or> c = 0x205F \<or> c = 0x3000"

definition strip :: "pystr \<Rightarrow> pystr" where
  "strip s = rev (dropWhile isspace (rev (dropWhile isspace s)))"

definition newline :: pystr where
  "newline = [0x0A]"

text \<open>
  A Python \<open>float\<close>: a finite value, an infinity or NaN.  The loop only asks whether
  a cost is truthy (not zero) and whether it is positive.
\<close>

datatype pyfloat = Finite real | PosInf | NegInf | NaN

fun float_truthy :: "pyfloat \<Rightarrow> bool" where
  "float_truthy (Finite x) = (x \<noteq> 0)"
| "float_truthy _ = True"

fun float_positive :: "pyfloat \<Rightarrow> bool" where
  "float_positive (Finite x) = (0 < x)"
| "float_positive PosInf = True"
| "float_positive _ = False"

text \<open>
  Every exception of a run is a value.  \<open>TransportError\<close> stands for whatever the
  agent SDK raises (connection, query or stream), \<open>CallbackError\<close> for an exception
  raised inside a progress callback; the others are raised by the configuration store.
\<close>

datatype error =
    TransportError pystr
  | CallbackError pystr
  | YAMLError pystr
  | TypeError
  | AttributeError

section \<open>The agent SDK, as the client sees it\<close>

text \<open>
  The messages of \<open>claude_agent_sdk\<close> that \<open>_translate_async\<close> tells apart by
  \<open>isinstance\<close>: an \<open>AssistantMessage\<close> holds content blocks, a \<open>ResultMessage\<close>
  holds \<open>total_cost_usd\<close> (a float or \<open>None\<close>), and any other message is only counted.
\<close>

datatype block =
    TextBlock pystr
  | ToolUseBlock pystr pystr  \<comment> \<open>\<open>id\<close> and \<open>name\<close>\<close>
  | OtherBlock

datatype message =
    AssistantMessage "block list"
  | ResultMessage "pyfloat option"
  | UserMessage
  | OtherMessage

text \<open>
  \<open>client.receive_messages()\<close> yields messages until it is exhausted or raises: a
  stream is the list of what the iterator does at each step, the end of the list being
  its exhaustion.  (An iterator that yields for ever without a result message keeps the
  loop running; such a call returns nothing and has no list.)  A client session is the
  outcome of entering the client (\<open>connect_error\<close>), of \<open>client.query\<close>
  (\<open>query_error\<close>) and the stream; leaving the \<open>async with\<close> block only disconnects
  and is taken to raise nothing.
\<close>

datatype event = Message message | Raise error

record options =
  opt_model :: pystr
  permission_mode :: pystr

record session =
  connect_error :: "error option"
  query_error :: "error option"
  events :: "event list"

text \<open>
  The service is outside the repository: it is a parameter, a function from the number of
  clients opened before, the options and the prompt to the session that client gets.
\<close>

type_synonym agent = "nat \<Rightarrow> options \<Rightarrow> pystr \<Rightarrow> session"

text \<open>
  What a run changes outside the client: the state the progress callback works on
  (\<open>observer\<close>), and the clients opened so far with the prompt each was given.
\<close>

record 'o world =
  observer :: 'o
  opened :: "(options \<times> pystr) list"

text \<open>
  A progress callback gets the message and the cost, works on its own state, and either
  returns a value (which the client drops) or raises.
\<close>

type_synonym ('r, 'o) callback = "pystr \<Rightarrow> pyfloat option \<Rightarrow> 'o \<Rightarrow> (error + 'r) \<times> 'o"

section \<open>translator.py: Translator\<close>

record ('r, 'o) translator =
  model :: pystr
  debug :: bool
  quiet :: bool
  progress_callback :: "('r, 'o) callback option"

definition Translator ::
  "pystr \<Rightarrow> bool \<Rightarrow> bool \<Rightarrow> ('r, 'o) callback option \<Rightarrow> ('r, 'o) translator" where
  "Translator m d q cb =
     \<lparr>model = resolve_model m, debug = d, quiet = q, progress_callback = cb\<rparr>"

text \<open>
  The local variables of \<open>_translate_async\<close>.  The \<open>debug\<close> branches only print to
  standard error and assign nothing the loop reads: they are left out.
\<close>

record loop_state =
  assistant_messages :: "pystr list"
  message_count :: nat
  tool_uses :: "pystr list"
  total_cost :: "pyfloat option"
  accumulated_text :: pystr

definition initial_state :: loop_state where
  "initial_state =
     \<lparr>assistant_messages = [], message_count = 0, tool_uses = [], total_cost = None,
      accumulated_text = []\<rparr>"

text \<open>
  \<open>if self.progress_callback and not self.quiet: self.progress_callback(msg, cost)\<close>:
  the returned value is dropped, an exception leaves the loop.
\<close>

definition notify ::
  "('r, 'o) translator \<Rightarrow> pystr \<Rightarrow> pyfloat option \<Rightarrow> 'o world \<Rightarrow> (error + unit) \<times> 'o world" where
  "notify tr msg cost w =
     (case progress_callback tr of
        None \<Rightarrow> (Inr (), w)
      | Some cb \<Rightarrow>
          if quiet tr then (Inr (), w)
          else (case cb msg cost (observer w) of
                  (Inl e, obs) \<Rightarrow> (Inl e, w\<lparr>observer := obs\<rparr>)
                | (Inr r, obs) \<Rightarrow> (Inr (), w\<lparr>observer := obs\<rparr>)))"

definition preview_of :: "pystr \<Rightarrow> pystr" where
  "preview_of accumulated =
     (let preview = strip accumulated
      in if length preview > 50 then take 47 preview @ py ''...'' else preview)"

text \<open>The body of \<open>for block in message.content\<close>, on \<open>text_blocks\<close> and the locals.\<close>

fun handle_block ::
  "('r, 'o) translator \<Rightarrow> block \<Rightarrow> pystr list \<times> loop_state \<Rightarrow> 'o world
     \<Rightarrow> (error + pystr list \<times> loop_state) \<times> 'o world" where
  "handle_block tr (TextBlock t) (text_blocks, st) w =
     (let st' = st\<lparr>accumulated_text := accumulated_text st @ t\<rparr>
      in case notify tr (py ''Translating: '' @ preview_of (accumulated_text st')) None w of
           (Inl e, w') \<Rightarrow> (Inl e, w')
         | (Inr u, w') \<Rightarrow> (Inr (text_blocks @ [t], st'), w'))"
| "handle_block tr (ToolUseBlock ident name) (text_blocks, st) w =
     (let st' = st\<lparr>tool_uses := tool_uses st @ [name]\<rparr>
      in case notify tr (py ''Using tool: '' @ name) None w of
           (Inl e, w') \<Rightarrow> (Inl e, w')
         | (Inr u, w') \<Rightarrow> (Inr (text_blocks, st'), w'))"
| "handle_block tr OtherBlock (text_blocks, st) w = (Inr (text_blocks, st), w)"

fun content_loop ::
  "('r, 'o) translator \<Rightarrow> block list \<Rightarrow> pystr list \<times> loop_state \<Rightarrow> 'o world
     \<Rightarrow> (error + pystr list \<times> loop_state) \<times> 'o world" where
  "content_loop tr [] acc w = (Inr acc, w)"
| "content_loop tr (b # bs) acc w =
     (case handle_block tr b acc w of
        (Inl e, w') \<Rightarrow> (Inl e, w')
      | (Inr acc', w') \<Rightarrow> content_loop tr bs acc' w')"

text \<open>
  The \<open>ResultMessage\<close> branch up to its \<open>break\<close>.  \<open>fmt\<close> is Python's rendering of a
  float under the format \<open>.6f\<close>.
\<close>

definition handle_result ::
  "('r, 'o) translator \<Rightarrow> (pyfloat \<Rightarrow> pystr) \<Rightarrow> pyfloat option \<Rightarrow> loop_state \<Rightarrow> 'o world
     \<Rightarrow> (error + loop_state) \<times> 'o world" where
  "handle_result tr fmt total_cost_usd st w =
     (let st' = (case total_cost_usd of
                   Some c \<Rightarrow> if float_truthy c then st\<lparr>total_cost := Some c\<rparr> else st
                 | None \<Rightarrow> st);
          msg = (case total_cost st' of
                   Some c \<Rightarrow>
                     if float_truthy c \<and> float_positive c
                     then py ''Translation complete (Cost: $'' @ fmt c @ py '')''
                     else py ''Translation complete''
                 | None \<Rightarrow> py ''Translation complete'')
      in case notify tr msg (total_cost st') w of
           (Inl e, w') \<Rightarrow> (Inl e, w')
         | (Inr u, w') \<Rightarrow> (Inr st', w'))"

text \<open>
  \<open>async for message in client.receive_messages()\<close>: an exhausted stream ends the
  loop, an exception of the stream leaves it, a \<open>ResultMessage\<close> breaks out of it.
\<close>

fun receive_messages ::
  "('r, 'o) translator \<Rightarrow> (pyfloat \<Rightarrow> pystr) \<Rightarrow> event list \<Rightarrow> loop_state \<Rightarrow> 'o world
     \<Rightarrow> (error + loop_state) \<times> 'o world" where
  "receive_messages tr fmt [] st w = (Inr st, w)"
| "receive_messages tr fmt (Raise e # es) st w = (Inl e, w)"
| "receive_messages tr fmt (Message m # es) st w =
     (let st1 = st\<lparr>message_count := message_count st + 1\<rparr>
      in case m of
           AssistantMessage content \<Rightarrow>
             (case content_loop tr content ([], st1) w of
                (Inl e, w') \<Rightarrow> (Inl e, w')
              | (Inr (text_blocks, st2), w') \<Rightarrow>
                  receive_messages tr fmt es
                    (if text_blocks \<noteq> []
                     then st2\<lparr>assistant_messages := assistant_messages st2 @ [concat text_blocks]\<rparr>
                     else st2) w')
         | ResultMessage total_cost_usd \<Rightarrow> handle_result tr fmt total_cost_usd st1 w
         | UserMessage \<Rightarrow> receive_messages tr fmt es st1 w
         | OtherMessage \<Rightarrow> receive_messages tr fmt es st1 w)"

text \<open>
  \<open>_translate_async\<close>: one client is opened with the options, the prompt is sent, the
  stream is consumed, and the last collected assistant message is returned stripped
  (the empty string when none was collected).  An exception of the client or of the
  callback is not caught here.
\<close>

definition translate_async ::
  "('r, 'o) translator \<Rightarrow> (pyfloat \<Rightarrow> pystr) \<Rightarrow> agent \<Rightarrow> pystr \<Rightarrow> 'o world
     \<Rightarrow> (error + pystr) \<times> 'o world" where
  "translate_async tr fmt ag prompt w =
     (let opts = \<lparr>opt_model = model tr, permission_mode = py ''bypassPermissions''\<rparr>;
          sess = ag (length (opened w)) opts prompt;
          w1 = w\<lparr>opened := opened w @ [(opts, prompt)]\<rparr>
      in case connect_error sess of
           Some e \<Rightarrow> (Inl e, w1)
         | None \<Rightarrow>
             (case query_error sess of
                Some e \<Rightarrow> (Inl e, w1)
              | None \<Rightarrow>
                  (case receive_messages tr fmt (events sess) initial_state w1 of
                     (Inl e, w2) \<Rightarrow> (Inl e, w2)
                   | (Inr st, w2) \<Rightarrow>
                       (Inr (if assistant_messages st \<noteq> []
                             then strip (last (assistant_messages st)) else []), w2))))"

definition build_prompt :: "pystr \<Rightarrow> pystr \<Rightarrow> pystr \<Rightarrow> pystr" where
  "build_prompt source_lang_name target_lang_name txt =
     py ''Translate the following text from '' @ source_lang_name @ py '' to ''
     @ target_lang_name @ py ''.'' @ newline
     @ py ''Output ONLY the translation, without any explanations, comments, or additional text.''
     @ newline @ newline @ py ''Text to translate:'' @ newline @ txt"

definition translate ::
  "('r, 'o) translator \<Rightarrow> (pyfloat \<Rightarrow> pystr) \<Rightarrow> agent \<Rightarrow> pystr \<Rightarrow> pystr \<Rightarrow> pystr option
     \<Rightarrow> 'o world \<Rightarrow> (error + pystr) \<times> 'o world" where
  "translate tr fmt ag txt target_language source_language w =
     (let source_language' =
            (case source_language of None \<Rightarrow> detect txt | Some s \<Rightarrow> s);
          target_lang_name = get_language_name target_language;
          source_lang_name = get_language_name source_language';
          prompt = build_prompt source_lang_name target_lang_name txt
      in translate_async tr fmt ag prompt w)"

definition auto_translate ::
  "('r, 'o) translator \<Rightarrow> (pyfloat \<Rightarrow> pystr) \<Rightarrow> agent \<Rightarrow> pystr \<Rightarrow> pystr
     \<Rightarrow> 'o world \<Rightarrow> (error + pystr) \<times> 'o world" where
  "auto_translate tr fmt ag txt native_language w =
     (let detected_lang = detect txt;
          target_language = (if detected_lang = native_language then py ''en''
                             else native_language)
      in translate tr fmt ag txt target_language (Some detected_lang) w)"

section \<open>config.py\<close>

text \<open>
  The values \<open>yaml.safe_load\<close> builds.  A dictionary is a finite map; a key is a
  string or some other hashable value (\<open>KOther\<close>, numbered up to Python's equality of
  keys, under which no string equals a value of another type).
\<close>

datatype pykey = KStr pystr | KOther nat

datatype pyval =
    PNone
  | PBool bool
  | PInt int
  | PFloat pyfloat
  | PStr pystr
  | PBytes "nat list"
  | PDate nat
  | PList "pyval list"
  | PSet "pykey fset"
  | PDict "(pykey, pyval) fmap"

text \<open>Python's truth value of an object, as \<open>x or {}\<close> tests it.\<close>

fun truthy :: "pyval \<Rightarrow> bool" where
  "truthy PNone = False"
| "truthy (PBool b) = b"
| "truthy (PInt i) = (i \<noteq> 0)"
| "truthy (PFloat x) = float_truthy x"
| "truthy (PStr s) = (s \<noteq> [])"
| "truthy (PBytes b) = (b \<noteq> [])"
| "truthy (PDate d) = True"
| "truthy (PList xs) = (xs \<noteq> [])"
| "truthy (PSet ks) = (ks \<noteq> {||})"
| "truthy (PDict d) = (d \<noteq> fmempty)"

text \<open>
  \<open>obj.get(key, default)\<close> and \<open>obj[key] = value\<close> with a string key: only a
  dictionary has the method \<open>get\<close> (\<open>AttributeError\<close> otherwise), and of the values
  above only a dictionary takes an assignment under a string key (\<open>TypeError\<close>
  otherwise).
\<close>

fun py_get :: "pyval \<Rightarrow> pystr \<Rightarrow> pyval \<Rightarrow> error + pyval" where
  "py_get (PDict d) k dflt = Inr (case fmlookup d (KStr k) of Some v \<Rightarrow> v | None \<Rightarrow> dflt)"
| "py_get obj k dflt = Inl AttributeError"

fun py_setitem :: "pyval \<Rightarrow> pystr \<Rightarrow> pyval \<Rightarrow> error + pyval" where
  "py_setitem (PDict d) k v = Inr (PDict (fmupd (KStr k) v d))"
| "py_setitem obj k v = Inl TypeError"

text \<open>
  What the store takes from outside the repository: the default locale
  (\<open>locale.getdefaultlocale()\<close> returns a language or \<open>None\<close>, or raises), PyYAML's
  \<open>safe_load\<close> and \<open>safe_dump\<close> on the content \<open>'f\<close> of a file, and the path of the
  configuration file.
\<close>

record 'f host =
  getdefaultlocale :: "error + pystr option"
  safe_load :: "'f \<Rightarrow> error + pyval"
  safe_dump :: "pyval \<Rightarrow> 'f"
  config_path :: pystr

definition get_system_language :: "'f host \<Rightarrow> pystr" where
  "get_system_language h =
     (case getdefaultlocale h of
        Inl e \<Rightarrow> py ''en''
      | Inr None \<Rightarrow> py ''en''
      | Inr (Some lang) \<Rightarrow>
          if lang \<noteq> [] then takeWhile (\<lambda>c. c \<noteq> 0x5F) lang else py ''en'')"

text \<open>
  A \<open>Config\<close> object holds the path and the loaded document.  The configuration file
  is \<open>None\<close> while it does not exist and \<open>Some\<close> of its content afterwards.
\<close>

record config =
  config_file :: pystr
  config_data :: pyval

definition save_config :: "'f host \<Rightarrow> pyval \<Rightarrow> 'f option \<Rightarrow> 'f option" where
  "save_config h cfg disk = Some (safe_dump h cfg)"

definition load_config :: "'f host \<Rightarrow> 'f option \<Rightarrow> (error + pyval) \<times> 'f option" where
  "load_config h disk =
     (case disk of
        Some content \<Rightarrow>
          (case safe_load h content of
             Inl e \<Rightarrow> (Inl e, disk)
           | Inr v \<Rightarrow> (Inr (if truthy v then v else PDict fmempty), disk))
      | None \<Rightarrow>
          (let default_config =
                 PDict (fmupd (KStr (py ''default_model'')) (PStr (py ''haiku''))
                   (fmupd (KStr (py ''native_language'')) (PStr (get_system_language h))
                      fmempty))
           in (Inr default_config, save_config h default_config disk)))"

definition Config :: "'f host \<Rightarrow> 'f option \<Rightarrow> (error + config) \<times> 'f option" where
  "Config h disk =
     (case load_config h disk of
        (Inl e, disk') \<Rightarrow> (Inl e, disk')
      | (Inr d, disk') \<Rightarrow> (Inr \<lparr>config_file = config_path h, config_data = d\<rparr>, disk'))"

definition native_language :: "'f host \<Rightarrow> config \<Rightarrow> error + pyval" where
  "native_language h c =
     py_get (config_data c) (py ''native_language'') (PStr (get_system_language h))"

definition default_model :: "config \<Rightarrow> error + pyval" where
  "default_model c = py_get (config_data c) (py ''default_model'') (PStr (py ''haiku''))"

definition get :: "config \<Rightarrow> pystr \<Rightarrow> pyval \<Rightarrow> error + pyval" where
  "get c k dflt = py_get (config_data c) k dflt"

text \<open>
  The setters assign in the dictionary and then save it; when the assignment raises,
  nothing is saved and the object is as before.
\<close>

definition set_key ::
  "'f host \<Rightarrow> pystr \<Rightarrow> pyval \<Rightarrow> config \<times> 'f option \<Rightarrow> (error + unit) \<times> config \<times> 'f option" where
  "set_key h k v store =
     (case store of (c, disk) \<Rightarrow>
        (case py_setitem (config_data c) k v of
           Inl e \<Rightarrow> (Inl e, c, disk)
         | Inr d \<Rightarrow> (Inr (), c\<lparr>config_data := d\<rparr>, save_config h d disk)))"

definition set_native_language ::
  "'f host \<Rightarrow> pyval \<Rightarrow> config \<times> 'f option \<Rightarrow> (error + unit) \<times> config \<times> 'f option" where
  "set_native_language h v store = set_key h (py ''native_language'') v store"

definition set_default_model ::
  "'f host \<Rightarrow> pyval \<Rightarrow> config \<times> 'f option \<Rightarrow> (error + unit) \<times> config \<times> 'f option" where
  "set_default_model h v store = set_key h (py ''default_model'') v store"

section \<open>Notions the properties are stated with\<close>

text \<open>
  These definitions are not part of the program: they say, in the words of the
  specification, what the program is compared with.
\<close>

text \<open>The same translator without a progress callback.\<close>

definition silent :: "('r, 'o) translator \<Rightarrow> ('r, 'o) translator" where
  "silent tr = tr\<lparr>progress_callback := None\<rparr>"

text \<open>
  \<open>callback_raises tr e\<close>: the callback of \<open>tr\<close> is called at all (it is supplied
  and \<open>quiet\<close> is off) and raises \<open>e\<close> on some arguments and some state.
  \<open>callback_returns tr\<close>: it raises nothing.
\<close>

definition callback_raises :: "('r, 'o) translator \<Rightarrow> error \<Rightarrow> bool" where
  "callback_raises tr e \<longleftrightarrow>
     (case progress_callback tr of
        None \<Rightarrow> False
      | Some cb \<Rightarrow> \<not> quiet tr \<and> (\<exists>msg cost obs. fst (cb msg cost obs) = Inl e))"

definition callback_returns :: "('r, 'o) translator \<Rightarrow> bool" where
  "callback_returns tr \<longleftrightarrow> (\<forall>e. \<not> callback_raises tr e)"

text \<open>
  A run \<open>out\<close> from the world \<open>w\<close> follows the result \<open>r0\<close>: it opens no client, and
  it ends with \<open>r0\<close> unless the callback raised.
\<close>

definition follows ::
  "('r, 'o) translator \<Rightarrow> 'o world \<Rightarrow> error + 'a \<Rightarrow> (error + 'a) \<times> 'o world \<Rightarrow> bool" where
  "follows tr w r0 out \<longleftrightarrow>
     opened (snd out) = opened w
     \<and> (fst out = r0 \<or> (\<exists>e. fst out = Inl e \<and> callback_raises tr e))"

text \<open>
  The exception the stream raises before its first result event, if any, and the
  messages that arrive before the first result event (or before the stream ends or
  raises).
\<close>

fun first_failure :: "event list \<Rightarrow> error option" where
  "first_failure [] = None"
| "first_failure (Raise e # es) = Some e"
| "first_failure (Message (ResultMessage c) # es) = None"
| "first_failure (Message m # es) = first_failure es"

fun consumed :: "event list \<Rightarrow> message list" where
  "consumed [] = []"
| "consumed (Raise e # es) = []"
| "consumed (Message (ResultMessage c) # es) = []"
| "consumed (Message m # es) = m # consumed es"

text \<open>
  The text blocks of an assistant message in order, and the strings the code collects
  from a sequence of messages: one for each assistant message that has a text block.
\<close>

fun texts :: "block list \<Rightarrow> pystr list" where
  "texts [] = []"
| "texts (TextBlock t # bs) = t # texts bs"
| "texts (b # bs) = texts bs"

fun message_turns :: "message list \<Rightarrow> pystr list" where
  "message_turns [] = []"
| "message_turns (AssistantMessage content # ms) =
     (if texts content = [] then message_turns ms else concat (texts content) # message_turns ms)"
| "message_turns (m # ms) = message_turns ms"

text \<open>
  The turn of the specification.  Its stream is flat: an ordered stream of assistant text
  segments, tool-invocation notices, user-turn echoes and the terminal result event.
  A turn is "one contiguous burst of textual output attributed to the agent within the
  response stream, terminated by a non-text event or stream end".  \<open>spec_events\<close> lays
  the messages out as that stream, and \<open>glossary_turns\<close> cuts it into its bursts, the
  second argument of \<open>bursts\<close> holding the burst that is open.
\<close>

datatype spec_event = TextSegment pystr | NonText

fun block_event :: "block \<Rightarrow> spec_event" where
  "block_event (TextBlock t) = TextSegment t"
| "block_event b = NonText"

fun message_events :: "message \<Rightarrow> spec_event list" where
  "message_events (AssistantMessage content) = map block_event content"
| "message_events m = [NonText]"

definition spec_events :: "message list \<Rightarrow> spec_event list" where
  "spec_events ms = concat (map message_events ms)"

fun bursts :: "spec_event list \<Rightarrow> pystr option \<Rightarrow> pystr list" where
  "bursts [] None = []"
| "bursts [] (Some t) = [t]"
| "bursts (TextSegment s # es) None = bursts es (Some s)"
| "bursts (TextSegment s # es) (Some t) = bursts es (Some (t @ s))"
| "bursts (NonText # es) None = bursts es None"
| "bursts (NonText # es) (Some t) = t # bursts es None"

definition glossary_turns :: "message list \<Rightarrow> pystr list" where
  "glossary_turns ms = bursts (spec_events ms) None"

definition final_text :: "pystr list \<Rightarrow> pystr" where
  "final_text ts = (if ts = [] then [] else strip (last ts))"

text \<open>
  The options \<open>_translate_async\<close> opens its client with, the session that client gets,
  the first exception the transport raises in it, and the prompt of \<open>translate\<close>.
\<close>

definition client_options :: "('r, 'o) translator \<Rightarrow> options" where
  "client_options tr = \<lparr>opt_model = model tr, permission_mode = py ''bypassPermissions''\<rparr>"

definition client_session :: "('r, 'o) translator \<Rightarrow> agent \<Rightarrow> pystr \<Rightarrow> 'o world \<Rightarrow> session" where
  "client_session tr ag prompt w = ag (length (opened w)) (client_options tr) prompt"

definition transport_failure :: "session \<Rightarrow> error option" where
  "transport_failure sess =
     (case connect_error sess of
        Some e \<Rightarrow> Some e
      | None \<Rightarrow> (case query_error sess of Some e \<Rightarrow> Some e | None \<Rightarrow> first_failure (events sess)))"

definition translate_prompt :: "pystr \<Rightarrow> pystr \<Rightarrow> pystr option \<Rightarrow> pystr" where
  "translate_prompt txt target_language source_language =
     build_prompt
       (get_language_name (case source_language of None \<Rightarrow> detect txt | Some s \<Rightarrow> s))
       (get_language_name target_language) txt"

text \<open>
  PyYAML is outside the repository.  \<open>reloads h d\<close> says of one document \<open>d\<close> that
  loading what was dumped for it gives \<open>d\<close> back.  PyYAML does so for the documents
  it writes in a form its loader reads back as written; it does not for every document
  (see \<open>pyyaml_host\<close> below).
\<close>

definition reloads :: "'f host \<Rightarrow> pyval \<Rightarrow> bool" where
  "reloads h d \<longleftrightarrow> safe_load h (safe_dump h d) = Inr d"

text \<open>
  What a new \<open>Config\<close> object reads from the file: the two preferences of the store
  loaded again.
\<close>

definition reloaded_native_language :: "'f host \<Rightarrow> 'f option \<Rightarrow> error + pyval" where
  "reloaded_native_language h disk =
     (case Config h disk of (Inl e, disk') \<Rightarrow> Inl e | (Inr c, disk') \<Rightarrow> native_language h c)"

definition reloaded_default_model :: "'f host \<Rightarrow> 'f option \<Rightarrow> error + pyval" where
  "reloaded_default_model h disk =
     (case Config h disk of (Inl e, disk') \<Rightarrow> Inl e | (Inr c, disk') \<Rightarrow> default_model c)"

text \<open>
  The value stored under a key of any type, and: every key but the string \<open>k\<close> holds
  the same value in \<open>c'\<close> as in \<open>c\<close>, and reads the same through \<open>get\<close>.
\<close>

definition stored :: "config \<Rightarrow> pykey \<Rightarrow> pyval option" where
  "stored c key = (case config_data c of PDict d \<Rightarrow> fmlookup d key | _ \<Rightarrow> None)"

definition others_unchanged :: "pystr \<Rightarrow> config \<Rightarrow> config \<Rightarrow> bool" where
  "others_unchanged k c c' \<longleftrightarrow>
     (\<forall>key. key \<noteq> KStr k \<longrightarrow> stored c' key = stored c key)
     \<and> (\<forall>k' dflt. k' \<noteq> k \<longrightarrow> get c' k' dflt = get c k' dflt)"

section \<open>Example runs\<close>

text \<open>
  Concrete collaborators, on which the properties below are instantiated: a stream
  with one assistant message in two text blocks around a tool use, a result and a
  failure after the result; an agent whose first client fails in mid-stream and whose
  later clients would succeed; a stream whose one assistant message has a tool use
  between two text blocks, and one with two assistant messages in a row; a callback
  that records its messages and one that raises.
\<close>

definition bonjour_events :: "event list" where
  "bonjour_events =
     [Message OtherMessage,
      Message (AssistantMessage
        [TextBlock (py '' Bon''), ToolUseBlock (py ''t1'') (py ''Bash''),
         TextBlock (py ''jour '' @ newline)]),
      Message UserMessage,
      Message (ResultMessage (Some (Finite (1 / 100)))),
      Raise (TransportError (py ''closed''))]"

definition bonjour_agent :: agent where
  "bonjour_agent n opts prompt =
     \<lparr>connect_error = None, query_error = None, events = bonjour_events\<rparr>"

definition failing_agent :: agent where
  "failing_agent n opts prompt =
     (if n = 0
      then \<lparr>connect_error = None, query_error = None,
             events = [Message (AssistantMessage [TextBlock (py ''Bon'')]),
                       Raise (TransportError (py ''closed''))]\<rparr>
      else bonjour_agent n opts prompt)"

definition split_agent :: agent where
  "split_agent n opts prompt =
     \<lparr>connect_error = None, query_error = None,
      events =
        [Message (AssistantMessage
           [TextBlock (py ''A''), ToolUseBlock (py ''t1'') (py ''Bash''), TextBlock (py ''B'')]),
         Message (ResultMessage None)]\<rparr>"

definition twice_agent :: agent where
  "twice_agent n opts prompt =
     \<lparr>connect_error = None, query_error = None,
      events =
        [Message (AssistantMessage [TextBlock (py ''A'')]),
         Message (AssistantMessage [TextBlock (py ''B'')]),
         Message (ResultMessage None)]\<rparr>"

definition recording_callback :: "(unit, pystr list) callback" where
  "recording_callback msg cost obs = (Inr (), obs @ [msg])"

definition raising_callback :: "(unit, pystr list) callback" where
  "raising_callback msg cost obs = (Inl (CallbackError msg), obs)"

definition example_translator :: "(unit, pystr list) translator" where
  "example_translator = Translator (py ''haiku'') False False (Some recording_callback)"

definition example_fmt :: "pyfloat \<Rightarrow> pystr" where
  "example_fmt c = py ''0.010000''"

definition start :: "pystr list world" where
  "start = \<lparr>observer = [], opened = []\<rparr>"

text \<open>
  A host whose serialiser treats U+0085 (NEL) as PyYAML does under the options of
  \<open>_save_config\<close>.  With \<open>allow_unicode=True\<close>, \<open>safe_dump\<close> does not escape the
  character; to YAML it is a line break, so a string holding it is written in single
  quotes with the break as it is, and \<open>safe_load\<close> folds a lone break inside a quoted
  scalar into a space.  The content of the file is modelled by the document dumped;
  loading reads each string value of the mapping with U+0085 replaced by a space and
  every other value as written.  (That is what PyYAML returns where each U+0085 stands
  alone between characters that are neither spaces nor line breaks, as in the strings
  used below.)
\<close>

fun fold_breaks :: "pyval \<Rightarrow> pyval" where
  "fold_breaks (PStr s) = PStr (map (\<lambda>c. if c = 0x85 then 0x20 else c) s)"
| "fold_breaks v = v"

definition pyyaml_load :: "pyval \<Rightarrow> error + pyval" where
  "pyyaml_load doc = Inr (case doc of PDict d \<Rightarrow> PDict (fmmap fold_breaks d) | v \<Rightarrow> v)"

definition pyyaml_host :: "pyval host" where
  "pyyaml_host =
     \<lparr>getdefaultlocale = Inr (Some (py ''ja_JP'')),
      safe_load = pyyaml_load,
      safe_dump = (\<lambda>v. v),
      config_path = py ''/home/user/.config/cctr/config.yaml''\<rparr>"

text \<open>
  Two stores in memory: one with plain preferences, and one whose \<open>default_model\<close>
  holds U+0085 between two letters (as after \<open>config.default_model = "a\x85b"\<close>, or
  after loading a file that spells the character with an escape).
\<close>

definition example_config :: config where
  "example_config =
     \<lparr>config_file = config_path pyyaml_host,
      config_data =
        PDict (fmupd (KStr (py ''default_model'')) (PStr (py ''sonnet''))
          (fmupd (KStr (py ''native_language'')) (PStr (py ''ja'')) fmempty))\<rparr>"

definition break_config :: config where
  "break_config =
     \<lparr>config_file = config_path pyyaml_host,
      config_data =
        PDict (fmupd (KStr (py ''default_model'')) (PStr [0x61, 0x85, 0x62])
          (fmupd (KStr (py ''native_language'')) (PStr (py ''ja'')) fmempty))\<rparr>"

section \<open>Properties\<close>

lemma py_eq_iff [simp]: "py s = py t \<longleftrightarrow> s = t"
  by (simp add: py_def inj_on_def)

lemma in_ranges_japanese:
  "in_ranges c japanese_ranges \<longleftrightarrow>
     (0x3040 \<le> c \<and> c \<le> 0x309F) \<or> (0x30A0 \<le> c \<and> c \<le> 0x30FF) \<or> (0x4E00 \<le> c \<and> c \<le> 0x9FFF)"
  by (simp add: japanese_ranges_def)

lemma detect_in_ranges:
  "detect t = (if \<exists>c \<in> set t. in_ranges c japanese_ranges then py ''ja'' else py ''en'')"
  by (induction t) simp_all

text \<open>
  C1.  \<open>detect\<close> returns \<open>"ja"\<close> exactly when some character of the text has its code
  point in U+3040..U+309F, U+30A0..U+30FF or U+4E00..U+9FFF, and \<open>"en"\<close> otherwise; it is
  a total function with no other result.
\<close>

theorem detect_ja_iff_japanese_char:
  "detect t =
     (if \<exists>c \<in> set t. (0x3040 \<le> c \<and> c \<le> 0x309F) \<or> (0x30A0 \<le> c \<and> c \<le> 0x30FF)
           \<or> (0x4E00 \<le> c \<and> c \<le> 0x9FFF)
      then py ''ja'' else py ''en'')
   \<and> (detect t = py ''ja'' \<longleftrightarrow>
        (\<exists>c \<in> set t. (0x3040 \<le> c \<and> c \<le> 0x309F) \<or> (0x30A0 \<le> c \<and> c \<le> 0x30FF)
           \<or> (0x4E00 \<le> c \<and> c \<le> 0x9FFF)))"
proof -
  have "detect t = (if \<exists>c \<in> set t. in_ranges c japanese_ranges then py ''ja'' else py ''en'')"
    by (rule detect_in_ranges)
  then show ?thesis
    by (simp add: in_ranges_japanese)
qed

theorem detect_ja_iff_japanese_char_witness:
  "detect [0x48, 0x69, 0x3053] = py ''ja'' \<and> detect (py ''Hello'') = py ''en''
   \<and> detect [0x303F] = py ''en'' \<and> detect [0x3040] = py ''ja''
   \<and> detect [0x4DFF] = py ''en'' \<and> detect [0x9FFF] = py ''ja''
   \<and> detect [0xA000] = py ''en'' \<and> detect [] = py ''en''"
  using detect_ja_iff_japanese_char [of "[0x48, 0x69, 0x3053]"]
    detect_ja_iff_japanese_char [of "py ''Hello''"]
    detect_ja_iff_japanese_char [of "[0x303F]"] detect_ja_iff_japanese_char [of "[0x3040]"]
    detect_ja_iff_japanese_char [of "[0x4DFF]"] detect_ja_iff_japanese_char [of "[0x9FFF]"]
    detect_ja_iff_japanese_char [of "[0xA000]"] detect_ja_iff_japanese_char [of "[]"]
  by (simp add: py_def)

text \<open>
  C6.  Model resolution maps the aliases \<open>haiku\<close>, \<open>sonnet\<close> and \<open>opus\<close> to the
  identifiers of \<open>MODEL_ALIASES\<close> and returns every other name unchanged.
\<close>

theorem resolve_model_aliases:
  "resolve_model m =
     (if m = py ''haiku'' then py ''claude-3-5-haiku-20241022''
      else if m = py ''sonnet'' then py ''claude-3-5-sonnet-20241022''
      else if m = py ''opus'' then py ''claude-opus-4-20250514''
      else m)"
  by (simp add: resolve_model_def table_get_def MODEL_ALIASES_def)

theorem resolve_model_aliases_witness:
  "resolve_model (py ''haiku'') = py ''claude-3-5-haiku-20241022''
   \<and> resolve_model (py ''unknown-model-x'') = py ''unknown-model-x''"
  using resolve_model_aliases [of "py ''haiku''"]
    resolve_model_aliases [of "py ''unknown-model-x''"]
  by simp

text \<open>
  C8.  The display name of a language code: the ten codes of \<open>LANGUAGE_NAMES\<close> have
  their English names, and every other code is its own display name.
\<close>

theorem get_language_name_table:
  "get_language_name c =
     (if c = py ''en'' then py ''English''
      else if c = py ''ja'' then py ''Japanese''
      else if c = py ''zh'' then py ''Chinese''
      else if c = py ''ko'' then py ''Korean''
      else if c = py ''es'' then py ''Spanish''
      else if c = py ''fr'' then py ''French''
      else if c = py ''de'' then py ''German''
      else if c = py ''it'' then py ''Italian''
      else if c = py ''pt'' then py ''Portuguese''
      else if c = py ''ru'' then py ''Russian''
      else c)"
  by (simp add: get_language_name_def table_get_def LANGUAGE_NAMES_def)

theorem get_language_name_table_witness:
  "get_language_name (py ''pt'') = py ''Portuguese''
   \<and> get_language_name (py ''xx'') = py ''xx''"
  using get_language_name_table [of "py ''pt''"] get_language_name_table [of "py ''xx''"]
  by simp

subsection \<open>Stripping\<close>

text \<open>
  \<open>strip\<close> cuts a run of whitespace off each end and nothing else: what is left neither
  starts nor ends with whitespace.
\<close>

lemma strip_decompose:
  "\<exists>l r. s = l @ strip s @ r \<and> (\<forall>c \<in> set l. isspace c) \<and> (\<forall>c \<in> set r. isspace c)"
proof -
  define d where "d = dropWhile isspace s"
  have 1: "s = takeWhile isspace s @ d" by (simp add: d_def)
  have 3: "d = strip s @ rev (takeWhile isspace (rev d))"
  proof -
    have "d = rev (rev d)" by simp
    also have "\<dots> = rev (takeWhile isspace (rev d) @ dropWhile isspace (rev d))" by simp
    also have "\<dots> = strip s @ rev (takeWhile isspace (rev d))"
      by (simp only: rev_append strip_def d_def)
    finally show ?thesis .
  qed
  have 4: "\<forall>c \<in> set (takeWhile isspace s). isspace c" by (auto dest: set_takeWhileD)
  have 5: "\<forall>c \<in> set (rev (takeWhile isspace (rev d))). isspace c" by (auto dest: set_takeWhileD)
  from 1 3 have "s = takeWhile isspace s @ strip s @ rev (takeWhile isspace (rev d))" by simp
  with 4 5 show ?thesis by blast
qed

lemma strip_ends:
  assumes "strip s \<noteq> []"
  shows "\<not> isspace (hd (strip s)) \<and> \<not> isspace (last (strip s))"
proof -
  define d where "d = dropWhile isspace s"
  define t where "t = dropWhile isspace (rev d)"
  have s: "strip s = rev t" by (simp add: strip_def d_def t_def)
  with assms have t: "t \<noteq> []" by simp
  then have h: "\<not> isspace (hd t)" unfolding t_def by (rule hd_dropWhile)
  have l: "last (rev t) = hd t" using t by (simp add: last_rev)
  have d: "d \<noteq> []" using t by (auto simp: t_def)
  then have hd: "\<not> isspace (hd d)" unfolding d_def by (rule hd_dropWhile)
  obtain k where k: "rev d = k @ t" unfolding t_def
    by (metis takeWhile_dropWhile_id)
  then have "d = rev t @ rev k" by (metis rev_append rev_rev_ident)
  then have "hd d = hd (rev t)" using t by simp
  with hd h l s show ?thesis by simp
qed

subsection \<open>The loop without a callback\<close>

lemma notify_silent: "notify (silent tr) msg c w = (Inr (), w)"
  by (simp add: notify_def silent_def)

lemma handle_block_silent:
  "\<exists>st'. handle_block (silent tr) b (tb, st) w = (Inr (tb @ texts [b], st'), w)
     \<and> assistant_messages st' = assistant_messages st"
  by (cases b) (simp_all add: notify_silent Let_def)

lemma content_loop_silent:
  "\<exists>st'. content_loop (silent tr) bs (tb, st) w = (Inr (tb @ texts bs, st'), w)
     \<and> assistant_messages st' = assistant_messages st"
proof (induction bs arbitrary: tb st)
  case Nil
  show ?case by simp
next
  case (Cons b bs)
  from handle_block_silent [of tr b tb st w] obtain st1 where
    h: "handle_block (silent tr) b (tb, st) w = (Inr (tb @ texts [b], st1), w)"
       "assistant_messages st1 = assistant_messages st" by blast
  from Cons.IH [of "tb @ texts [b]" st1] obtain st2 where
    "content_loop (silent tr) bs (tb @ texts [b], st1) w = (Inr ((tb @ texts [b]) @ texts bs, st2), w)"
    "assistant_messages st2 = assistant_messages st1" by blast
  then show ?case using h by (cases b) simp_all
qed

lemma handle_result_silent:
  "\<exists>st'. handle_result (silent tr) fmt c st w = (Inr st', w)
     \<and> assistant_messages st' = assistant_messages st"
  by (simp add: handle_result_def notify_silent Let_def split: option.splits)

lemma receive_messages_silent:
  "\<exists>st'. receive_messages (silent tr) fmt es st w =
           ((case first_failure es of Some e \<Rightarrow> Inl e | None \<Rightarrow> Inr st'), w)
     \<and> assistant_messages st' = assistant_messages st @ message_turns (consumed es)"
proof (induction es arbitrary: st)
  case Nil
  show ?case by simp
next
  case (Cons ev es)
  show ?case
  proof (cases ev)
    case (Raise e)
    then show ?thesis by (auto intro: exI [of _ st])
  next
    case (Message m)
    define st1 where "st1 = st\<lparr>message_count := Suc (message_count st)\<rparr>"
    have a1: "assistant_messages st1 = assistant_messages st" by (simp add: st1_def)
    show ?thesis
    proof (cases m)
      case (AssistantMessage content)
      from content_loop_silent [of tr content "[]" st1 w] obtain st2 where
        c: "content_loop (silent tr) content ([], st1) w = (Inr (texts content, st2), w)"
           "assistant_messages st2 = assistant_messages st1" by auto
      define st3 where "st3 = (if texts content \<noteq> []
         then st2\<lparr>assistant_messages := assistant_messages st2 @ [concat (texts content)]\<rparr>
         else st2)"
      have a3: "assistant_messages st3 = assistant_messages st @ message_turns [m]"
        using c(2) a1 AssistantMessage by (simp add: st3_def)
      from Cons.IH [of st3] obtain st' where
        "receive_messages (silent tr) fmt es st3 w =
           ((case first_failure es of Some e \<Rightarrow> Inl e | None \<Rightarrow> Inr st'), w)"
        "assistant_messages st' = assistant_messages st3 @ message_turns (consumed es)" by blast
      then show ?thesis
        using c(1) a3 Message AssistantMessage
        by (auto simp: st1_def [symmetric] st3_def [symmetric] Let_def)
    next
      case (ResultMessage c)
      from handle_result_silent [of tr fmt c st1 w] a1
      show ?thesis using Message ResultMessage
        by (auto simp: st1_def [symmetric] Let_def)
    next
      case UserMessage
      from Cons.IH [of st1] a1 show ?thesis using Message UserMessage
        by (auto simp: st1_def [symmetric] Let_def)
    next
      case OtherMessage
      from Cons.IH [of st1] a1 show ?thesis using Message OtherMessage
        by (auto simp: st1_def [symmetric] Let_def)
    qed
  qed
qed

lemma translate_async_silent:
  "translate_async (silent tr) fmt ag prompt w =
     ((case transport_failure (client_session tr ag prompt w) of
         Some e \<Rightarrow> Inl e
       | None \<Rightarrow> Inr (final_text (message_turns (consumed (events (client_session tr ag prompt w)))))),
      w\<lparr>opened := opened w @ [(client_options tr, prompt)]\<rparr>)"
proof -
  define sess where "sess = client_session tr ag prompt w"
  define w1 where "w1 = w\<lparr>opened := opened w @ [(client_options tr, prompt)]\<rparr>"
  from receive_messages_silent [of tr fmt "events sess" initial_state w1] obtain st' where
    r: "receive_messages (silent tr) fmt (events sess) initial_state w1 =
           ((case first_failure (events sess) of Some e \<Rightarrow> Inl e | None \<Rightarrow> Inr st'), w1)"
       "assistant_messages st' = message_turns (consumed (events sess))"
    by (auto simp: initial_state_def)
  have m: "model (silent tr) = model tr" by (simp add: silent_def)
  show ?thesis
    unfolding translate_async_def Let_def m client_options_def [symmetric]
      client_session_def [symmetric] sess_def [symmetric] w1_def [symmetric]
    using r
    by (auto simp: transport_failure_def final_text_def split: option.splits)
qed

subsection \<open>The loop with a callback\<close>

lemma follows_cases:
  assumes "follows tr w (Inr a) out"
  obtains (returns) w' where "out = (Inr a, w')" "opened w' = opened w"
  | (raises) e w' where "out = (Inl e, w')" "opened w' = opened w" "callback_raises tr e"
  using assms by (cases out) (auto simp: follows_def)

lemma follows_raised:
  "opened w' = opened w \<Longrightarrow> callback_raises tr e \<Longrightarrow> follows tr w r0 (Inl e, w')"
  by (auto simp: follows_def)

lemma follows_returned: "opened w' = opened w \<Longrightarrow> follows tr w r0 (r0, w')"
  by (simp add: follows_def)

lemma follows_opened: "opened w1 = opened w \<Longrightarrow> follows tr w1 r0 out \<Longrightarrow> follows tr w r0 out"
  by (simp add: follows_def)

lemma notify_follows: "follows tr w (Inr ()) (notify tr msg c w)"
proof (cases "progress_callback tr")
  case None
  then show ?thesis by (simp add: notify_def follows_def)
next
  case (Some cb)
  show ?thesis
  proof (cases "quiet tr")
    case True
    then show ?thesis using Some by (simp add: notify_def follows_def)
  next
    case False
    obtain r obs where c: "cb msg c (observer w) = (r, obs)" by (cases "cb msg c (observer w)")
    show ?thesis
    proof (cases r)
      case (Inl e)
      have "fst (cb msg c (observer w)) = Inl e" using c Inl by simp
      then have "callback_raises tr e"
        using Some False by (auto simp: callback_raises_def)
      then show ?thesis using Some False c Inl by (simp add: notify_def follows_def)
    next
      case (Inr v)
      then show ?thesis using Some False c by (simp add: notify_def follows_def)
    qed
  qed
qed

lemma handle_block_follows:
  "follows tr w (fst (handle_block (silent tr) b acc w0)) (handle_block tr b acc w)"
proof (cases acc)
  case (Pair tb st)
  show ?thesis
  proof (cases b)
    case (TextBlock t)
    from notify_follows [of tr w "py ''Translating: '' @ preview_of (accumulated_text st @ t)" None]
    show ?thesis
      by (cases rule: follows_cases)
        (simp_all add: Pair TextBlock notify_silent Let_def follows_raised follows_returned)
  next
    case (ToolUseBlock i n)
    from notify_follows [of tr w "py ''Using tool: '' @ n" None]
    show ?thesis
      by (cases rule: follows_cases)
        (simp_all add: Pair ToolUseBlock notify_silent Let_def follows_raised follows_returned)
  next
    case OtherBlock
    then show ?thesis using Pair by (simp add: follows_returned)
  qed
qed

lemma content_loop_follows:
  "follows tr w (fst (content_loop (silent tr) bs acc w0)) (content_loop tr bs acc w)"
proof (induction bs arbitrary: acc w)
  case Nil
  show ?case by (simp add: follows_returned)
next
  case (Cons b bs)
  obtain tb st where acc: "acc = (tb, st)" by (cases acc)
  from handle_block_silent [of tr b tb st w0] obtain st1 where
    s: "handle_block (silent tr) b (tb, st) w0 = (Inr (tb @ texts [b], st1), w0)" by blast
  then have "follows tr w (Inr (tb @ texts [b], st1)) (handle_block tr b acc w)"
    using handle_block_follows [of tr w b acc w0] acc by simp
  then show ?case
  proof (cases rule: follows_cases)
    case (returns w1)
    from Cons.IH [of w1 "(tb @ texts [b], st1)"] returns(2)
    have "follows tr w (fst (content_loop (silent tr) bs (tb @ texts [b], st1) w0))
            (content_loop tr bs (tb @ texts [b], st1) w1)"
      by (rule follows_opened [rotated])
    then show ?thesis using returns(1) s acc by simp
  next
    case (raises e w1)
    then show ?thesis by (simp add: follows_raised)
  qed
qed

lemma handle_result_follows:
  "follows tr w (fst (handle_result (silent tr) fmt c st w0)) (handle_result tr fmt c st w)"
proof -
  define st' where "st' = (case c of
                   Some c \<Rightarrow> if float_truthy c then st\<lparr>total_cost := Some c\<rparr> else st
                 | None \<Rightarrow> st)"
  define msg where "msg = (case total_cost st' of
                   Some c \<Rightarrow>
                     if float_truthy c \<and> float_positive c
                     then py ''Translation complete (Cost: $'' @ fmt c @ py '')''
                     else py ''Translation complete''
                 | None \<Rightarrow> py ''Translation complete'')"
  from notify_follows [of tr w msg "total_cost st'"]
  show ?thesis
    unfolding handle_result_def Let_def st'_def [symmetric] msg_def [symmetric]
    by (cases rule: follows_cases) (simp_all add: notify_silent follows_raised follows_returned)
qed

lemma receive_messages_follows:
  "follows tr w (fst (receive_messages (silent tr) fmt es st w0)) (receive_messages tr fmt es st w)"
proof (induction es arbitrary: st w)
  case Nil
  show ?case by (simp add: follows_returned)
next
  case (Cons ev es)
  show ?case
  proof (cases ev)
    case (Raise e)
    then show ?thesis by (simp add: follows_returned)
  next
    case (Message m)
    define st1 where "st1 = st\<lparr>message_count := Suc (message_count st)\<rparr>"
    show ?thesis
    proof (cases m)
      case (AssistantMessage content)
      from content_loop_silent [of tr content "[]" st1 w0] obtain st2 where
        s: "content_loop (silent tr) content ([], st1) w0 = (Inr (texts content, st2), w0)" by auto
      then have "follows tr w (Inr (texts content, st2)) (content_loop tr content ([], st1) w)"
        using content_loop_follows [of tr w content "([], st1)" w0] by simp
      then show ?thesis
      proof (cases rule: follows_cases)
        case (returns w1)
        define st3 where "st3 = (if texts content \<noteq> []
           then st2\<lparr>assistant_messages := assistant_messages st2 @ [concat (texts content)]\<rparr>
           else st2)"
        from Cons.IH [of w1 st3] returns(2)
        have "follows tr w (fst (receive_messages (silent tr) fmt es st3 w0))
                (receive_messages tr fmt es st3 w1)"
          by (rule follows_opened [rotated])
        then show ?thesis
          using returns(1) s Message AssistantMessage
          by (simp add: st1_def [symmetric] st3_def [symmetric])
      next
        case (raises e w1)
        then show ?thesis
          using Message AssistantMessage
          by (simp add: st1_def [symmetric] follows_raised)
      qed
    next
      case (ResultMessage c)
      from handle_result_follows [of tr w fmt c st1 w0]
      show ?thesis using Message ResultMessage
        by (simp add: st1_def [symmetric])
    next
      case UserMessage
      from Cons.IH [of w st1] show ?thesis using Message UserMessage
        by (simp add: st1_def [symmetric])
    next
      case OtherMessage
      from Cons.IH [of w st1] show ?thesis using Message OtherMessage
        by (simp add: st1_def [symmetric])
    qed
  qed
qed

lemma translate_async_follows:
  "follows tr (w\<lparr>opened := opened w @ [(client_options tr, prompt)]\<rparr>)
     (fst (translate_async (silent tr) fmt ag prompt w)) (translate_async tr fmt ag prompt w)"
proof -
  define sess where "sess = client_session tr ag prompt w"
  define w1 where "w1 = w\<lparr>opened := opened w @ [(client_options tr, prompt)]\<rparr>"
  have m: "model (silent tr) = model tr" by (simp add: silent_def)
  show ?thesis
  proof (cases "connect_error sess")
    case (Some e)
    then show ?thesis
      unfolding translate_async_def Let_def m client_options_def [symmetric]
        client_session_def [symmetric] sess_def [symmetric]
      by (simp add: follows_returned)
  next
    case None
    note c = this
    show ?thesis
    proof (cases "query_error sess")
      case (Some e)
      then show ?thesis
        unfolding translate_async_def Let_def m client_options_def [symmetric]
          client_session_def [symmetric] sess_def [symmetric]
        using c by (simp add: follows_returned)
    next
      case None
      from receive_messages_silent [of tr fmt "events sess" initial_state w1] obtain st' where
        s: "receive_messages (silent tr) fmt (events sess) initial_state w1 =
             ((case first_failure (events sess) of Some e \<Rightarrow> Inl e | None \<Rightarrow> Inr st'), w1)"
        by auto
      from receive_messages_follows [of tr w1 fmt "events sess" initial_state w1]
      have f: "follows tr w1 (case first_failure (events sess) of Some e \<Rightarrow> Inl e | None \<Rightarrow> Inr st')
                 (receive_messages tr fmt (events sess) initial_state w1)"
        using s by simp
      show ?thesis
      proof (cases "first_failure (events sess)")
        case (Some e)
        with f have "\<exists>e' w2. receive_messages tr fmt (events sess) initial_state w1 = (Inl e', w2)
            \<and> opened w2 = opened w1 \<and> (e' = e \<or> callback_raises tr e')"
          by (cases "receive_messages tr fmt (events sess) initial_state w1")
            (auto simp: follows_def)
        then show ?thesis
          unfolding translate_async_def Let_def m client_options_def [symmetric]
            client_session_def [symmetric] sess_def [symmetric] w1_def [symmetric]
          using c None s Some by (auto simp: follows_def)
      next
        case n: None
        with f have "follows tr w1 (Inr st') (receive_messages tr fmt (events sess) initial_state w1)"
          by simp
        then show ?thesis
          unfolding translate_async_def Let_def m client_options_def [symmetric]
            client_session_def [symmetric] sess_def [symmetric] w1_def [symmetric]
          using c None s n
          by (cases rule: follows_cases) (auto simp: follows_def)
      qed
    qed
  qed
qed

lemma translate_unfold:
  "translate tr fmt ag txt tgt src w =
     translate_async tr fmt ag (translate_prompt txt tgt src) w"
  by (simp add: translate_def translate_prompt_def Let_def)

lemma translate_follows:
  "follows tr (w\<lparr>opened := opened w @ [(client_options tr, translate_prompt txt tgt src)]\<rparr>)
     (fst (translate (silent tr) fmt ag txt tgt src w)) (translate tr fmt ag txt tgt src w)"
  unfolding translate_unfold by (rule translate_async_follows)

lemma translate_silent:
  "translate (silent tr) fmt ag txt tgt src w =
     ((case transport_failure (client_session tr ag (translate_prompt txt tgt src) w) of
         Some e \<Rightarrow> Inl e
       | None \<Rightarrow>
           Inr (final_text (message_turns (consumed (events
                  (client_session tr ag (translate_prompt txt tgt src) w)))))),
      w\<lparr>opened := opened w @ [(client_options tr, translate_prompt txt tgt src)]\<rparr>)"
  unfolding translate_unfold by (rule translate_async_silent)

subsection \<open>The claims on the translation client\<close>

lemma callback_returns_silent: "callback_returns (silent tr)"
  by (simp add: callback_returns_def callback_raises_def silent_def)

lemma follows_returns:
  "callback_returns tr \<Longrightarrow> follows tr w r0 out \<Longrightarrow> fst out = r0"
  by (auto simp: follows_def callback_returns_def)

lemma callback_returns_example: "callback_returns example_translator"
  by (simp add: callback_returns_def callback_raises_def example_translator_def Translator_def
      recording_callback_def)

text \<open>
  C2.  \<open>auto_translate\<close> detects the source, takes \<open>"en"\<close> as target when the source is
  the native language and the native language otherwise, and calls \<open>translate\<close> with
  both.  With native language \<open>"en"\<close> and an English text the target is \<open>"en"\<close>, and the
  request from English to English is issued.
\<close>

theorem auto_translate_selects_target:
  "auto_translate tr fmt ag txt native w =
     translate tr fmt ag txt (if detect txt = native then py ''en'' else native)
       (Some (detect txt)) w
   \<and> (native = py ''en'' \<and> detect txt = py ''en'' \<longrightarrow>
        auto_translate tr fmt ag txt native w =
          translate tr fmt ag txt (py ''en'') (Some (py ''en'')) w
        \<and> opened (snd (auto_translate tr fmt ag txt native w)) =
            opened w @ [(client_options tr, build_prompt (py ''English'') (py ''English'') txt)])"
proof -
  have a: "auto_translate tr fmt ag txt native w =
     translate tr fmt ag txt (if detect txt = native then py ''en'' else native)
       (Some (detect txt)) w"
    by (simp add: auto_translate_def Let_def)
  have "opened (snd (translate tr fmt ag txt (py ''en'') (Some (py ''en'')) w)) =
          opened w @ [(client_options tr, build_prompt (py ''English'') (py ''English'') txt)]"
    using translate_follows [of tr w "txt" "py ''en''" "Some (py ''en'')" fmt ag]
    by (simp add: follows_def translate_prompt_def get_language_name_def table_get_def
        LANGUAGE_NAMES_def)
  with a show ?thesis by auto
qed

theorem auto_translate_selects_target_witness:
  "opened (snd (auto_translate example_translator example_fmt bonjour_agent (py ''Hello'')
       (py ''en'') start)) =
     [(client_options example_translator,
       build_prompt (py ''English'') (py ''English'') (py ''Hello''))]
   \<and> auto_translate example_translator example_fmt bonjour_agent (py ''Hello'') (py ''ja'') start =
       translate example_translator example_fmt bonjour_agent (py ''Hello'') (py ''ja'')
         (Some (py ''en'')) start"
proof -
  have d: "detect (py ''Hello'') = py ''en''" by (simp add: py_def japanese_ranges_def)
  have 1: "opened (snd (auto_translate example_translator example_fmt bonjour_agent (py ''Hello'')
       (py ''en'') start)) =
     opened start @ [(client_options example_translator,
       build_prompt (py ''English'') (py ''English'') (py ''Hello''))]"
    by (rule auto_translate_selects_target [THEN conjunct2, THEN mp, THEN conjunct2])
      (simp add: d)
  have 2: "auto_translate example_translator example_fmt bonjour_agent (py ''Hello'') (py ''ja'') start =
       translate example_translator example_fmt bonjour_agent (py ''Hello'')
         (if detect (py ''Hello'') = py ''ja'' then py ''en'' else py ''ja'')
         (Some (detect (py ''Hello''))) start"
    by (rule auto_translate_selects_target [THEN conjunct1])
  show ?thesis using 1 2 d by (simp add: start_def)
qed

text \<open>
  C3, as amended.  When the transport raises nothing before the first result event (and
  the callback raises nothing), \<open>_translate_async\<close> consumes the messages up to the first
  result event, joins the text blocks of each assistant message in order into one string
  for each message that has a text block, and returns the last of these strings,
  stripped; when no assistant message before the result event has a text block it
  returns the empty string and raises nothing.  The strings are per message: a tool use
  between two text blocks does not end one, and two assistant messages in a row give
  two.
\<close>

theorem translate_async_returns_last_turn:
  assumes "transport_failure (client_session tr ag prompt w) = None"
    and "callback_returns tr"
  shows "fst (translate_async tr fmt ag prompt w) =
           Inr (final_text (message_turns (consumed (events (client_session tr ag prompt w)))))
         \<and> (message_turns (consumed (events (client_session tr ag prompt w))) = [] \<longrightarrow>
              fst (translate_async tr fmt ag prompt w) = Inr [])"
proof -
  have "fst (translate_async tr fmt ag prompt w) = fst (translate_async (silent tr) fmt ag prompt w)"
    using follows_returns [OF assms(2) translate_async_follows] .
  then show ?thesis
    using assms(1) by (simp add: translate_async_silent final_text_def)
qed

theorem translate_async_returns_last_turn_witness:
  "fst (translate_async example_translator example_fmt bonjour_agent (py ''p'') start) =
     Inr (py ''Bonjour'')
   \<and> fst (translate_async example_translator example_fmt
        (\<lambda>n opts prompt. \<lparr>connect_error = None, query_error = None,
            events = [Message (AssistantMessage [ToolUseBlock (py ''t1'') (py ''Bash'')]),
                      Message (ResultMessage None)]\<rparr>) (py ''p'') start) = Inr []"
proof -
  have 1: "transport_failure (client_session example_translator bonjour_agent (py ''p'') start) = None"
    by (simp add: transport_failure_def client_session_def bonjour_agent_def bonjour_events_def)
  have 2: "transport_failure (client_session example_translator
        (\<lambda>n opts prompt. \<lparr>connect_error = None, query_error = None,
            events = [Message (AssistantMessage [ToolUseBlock (py ''t1'') (py ''Bash'')]),
                      Message (ResultMessage None)]\<rparr>) (py ''p'') start) = None"
    by (simp add: transport_failure_def client_session_def)
  show ?thesis
    using translate_async_returns_last_turn [OF 1 callback_returns_example, of example_fmt]
      translate_async_returns_last_turn [OF 2 callback_returns_example, of example_fmt]
    by (simp add: client_session_def bonjour_agent_def bonjour_events_def final_text_def
        strip_def isspace_def py_def newline_def)
qed

text \<open>
  A stream of messages alone (the iterator never raises) has no failure, and all its
  messages before the first result are consumed.
\<close>

lemma first_failure_messages: "first_failure (map Message ms) = None"
proof (induction ms)
  case Nil
  show ?case by simp
next
  case (Cons m ms)
  then show ?case by (cases m) simp_all
qed

lemma consumed_messages:
  "consumed (map Message ms) = takeWhile (\<lambda>m. \<forall>c. m \<noteq> ResultMessage c) ms"
proof (induction ms)
  case Nil
  show ?case by simp
next
  case (Cons m ms)
  then show ?case by (cases m) simp_all
qed

text \<open>
  C3 as the specification words it, with its own turn (a contiguous burst of text ended
  by a non-text event or the end of the stream), does not hold.  With a tool use
  between two text blocks of one assistant message the last turn is \<open>B\<close> and the code
  returns \<open>AB\<close>; with two assistant messages in a row the last turn is \<open>AB\<close> and the
  code returns \<open>B\<close>.
\<close>

theorem last_glossary_turn_not_returned:
  "fst (translate_async example_translator example_fmt split_agent (py ''p'') start)
     \<noteq> Inr (final_text (glossary_turns (consumed (events
           (client_session example_translator split_agent (py ''p'') start)))))
   \<and> fst (translate_async example_translator example_fmt split_agent (py ''p'') start)
       = Inr (py ''AB'')
   \<and> final_text (glossary_turns (consumed (events
         (client_session example_translator split_agent (py ''p'') start)))) = py ''B''
   \<and> fst (translate_async example_translator example_fmt twice_agent (py ''p'') start)
       = Inr (py ''B'')
   \<and> final_text (glossary_turns (consumed (events
         (client_session example_translator twice_agent (py ''p'') start)))) = py ''AB''"
proof -
  have 1: "fst (translate_async example_translator example_fmt split_agent (py ''p'') start)
       = Inr (py ''AB'')"
    by (simp add: translate_async_def Let_def example_translator_def Translator_def
        split_agent_def notify_def recording_callback_def start_def handle_result_def
        preview_of_def strip_def isspace_def py_def initial_state_def)
  have 2: "final_text (glossary_turns (consumed (events
         (client_session example_translator split_agent (py ''p'') start)))) = py ''B''"
    by (simp add: client_session_def split_agent_def glossary_turns_def spec_events_def
        final_text_def strip_def isspace_def py_def)
  have 3: "fst (translate_async example_translator example_fmt twice_agent (py ''p'') start)
       = Inr (py ''B'')"
    by (simp add: translate_async_def Let_def example_translator_def Translator_def
        twice_agent_def notify_def recording_callback_def start_def handle_result_def
        preview_of_def strip_def isspace_def py_def initial_state_def)
  have 4: "final_text (glossary_turns (consumed (events
         (client_session example_translator twice_agent (py ''p'') start)))) = py ''AB''"
    by (simp add: client_session_def twice_agent_def glossary_turns_def spec_events_def
        final_text_def strip_def isspace_def py_def)
  have 5: "py ''AB'' \<noteq> py ''B''" by simp
  from 1 2 3 4 5 show ?thesis by simp
qed

text \<open>
  C4.  When the transport raises \<open>e\<close> in the one client \<open>translate\<close> opens (on
  connecting, on the query, or in the stream before its first result event),
  \<open>translate\<close> ends with an exception and returns no string: with \<open>e\<close> itself, unless
  the callback raised before.  Exactly one client has been opened: there is no retry.
\<close>

theorem transport_error_propagates:
  assumes "transport_failure (client_session tr ag (translate_prompt txt tgt src) w) = Some e"
  shows "(\<exists>e'. fst (translate tr fmt ag txt tgt src w) = Inl e' \<and> (e' = e \<or> callback_raises tr e'))
         \<and> (callback_returns tr \<longrightarrow> fst (translate tr fmt ag txt tgt src w) = Inl e)
         \<and> opened (snd (translate tr fmt ag txt tgt src w)) =
             opened w @ [(client_options tr, translate_prompt txt tgt src)]"
proof -
  have s: "fst (translate (silent tr) fmt ag txt tgt src w) = Inl e"
    using assms by (simp add: translate_silent)
  have f: "follows tr (w\<lparr>opened := opened w @ [(client_options tr, translate_prompt txt tgt src)]\<rparr>)
     (Inl e) (translate tr fmt ag txt tgt src w)"
    using translate_follows [of tr w "txt" tgt src fmt ag] s by simp
  then have 1: "\<exists>e'. fst (translate tr fmt ag txt tgt src w) = Inl e' \<and> (e' = e \<or> callback_raises tr e')"
    by (auto simp: follows_def)
  have 2: "callback_returns tr \<longrightarrow> fst (translate tr fmt ag txt tgt src w) = Inl e"
    using follows_returns [OF _ f] by blast
  have 3: "opened (snd (translate tr fmt ag txt tgt src w)) =
             opened w @ [(client_options tr, translate_prompt txt tgt src)]"
    using f by (simp add: follows_def)
  from 1 2 3 show ?thesis by blast
qed

theorem transport_error_propagates_witness:
  "fst (translate example_translator example_fmt failing_agent (py ''Hello'') (py ''fr'') None start)
     = Inl (TransportError (py ''closed''))
   \<and> length (opened (snd (translate example_translator example_fmt failing_agent (py ''Hello'')
        (py ''fr'') None start))) = 1"
proof -
  have 1: "transport_failure (client_session example_translator failing_agent
      (translate_prompt (py ''Hello'') (py ''fr'') None) start) = Some (TransportError (py ''closed''))"
    by (simp add: transport_failure_def client_session_def failing_agent_def start_def)
  show ?thesis
    using transport_error_propagates [OF 1, of example_fmt] callback_returns_example
    by (simp add: start_def)
qed

text \<open>
  C7.  The result of \<open>translate\<close> with a progress callback is the result of \<open>translate\<close>
  without one, string or exception alike, unless the callback itself raised; in
  particular it is the same for every callback that returns, whatever it returns and
  whatever it does to its own state, and a string returned with a callback is the
  string returned without one.  The same client is opened either way.
\<close>

theorem progress_callback_is_observational:
  "(fst (translate tr fmt ag txt tgt src w) =
      fst (translate (tr\<lparr>progress_callback := None\<rparr>) fmt ag txt tgt src w)
    \<or> (\<exists>e. fst (translate tr fmt ag txt tgt src w) = Inl e \<and> callback_raises tr e))
   \<and> (callback_returns tr \<longrightarrow>
        fst (translate tr fmt ag txt tgt src w) =
          fst (translate (tr\<lparr>progress_callback := None\<rparr>) fmt ag txt tgt src w))
   \<and> (\<forall>s. fst (translate tr fmt ag txt tgt src w) = Inr s \<longrightarrow>
          fst (translate (tr\<lparr>progress_callback := None\<rparr>) fmt ag txt tgt src w) = Inr s)
   \<and> opened (snd (translate tr fmt ag txt tgt src w)) =
       opened (snd (translate (tr\<lparr>progress_callback := None\<rparr>) fmt ag txt tgt src w))"
proof -
  have f: "follows tr (w\<lparr>opened := opened w @ [(client_options tr, translate_prompt txt tgt src)]\<rparr>)
     (fst (translate (silent tr) fmt ag txt tgt src w)) (translate tr fmt ag txt tgt src w)"
    by (rule translate_follows)
  have o: "opened (snd (translate (silent tr) fmt ag txt tgt src w)) =
      opened w @ [(client_options tr, translate_prompt txt tgt src)]"
    by (simp add: translate_silent)
  have 1: "fst (translate tr fmt ag txt tgt src w) = fst (translate (silent tr) fmt ag txt tgt src w)
    \<or> (\<exists>e. fst (translate tr fmt ag txt tgt src w) = Inl e \<and> callback_raises tr e)"
    using f by (simp add: follows_def)
  have 2: "callback_returns tr \<longrightarrow>
        fst (translate tr fmt ag txt tgt src w) = fst (translate (silent tr) fmt ag txt tgt src w)"
    using follows_returns [OF _ f] by blast
  have 3: "opened (snd (translate tr fmt ag txt tgt src w)) =
       opened (snd (translate (silent tr) fmt ag txt tgt src w))"
    using f o by (simp add: follows_def)
  have 4: "\<forall>s. fst (translate tr fmt ag txt tgt src w) = Inr s \<longrightarrow>
          fst (translate (silent tr) fmt ag txt tgt src w) = Inr s"
  proof (intro allI impI)
    fix s assume "fst (translate tr fmt ag txt tgt src w) = Inr s"
    with 1 show "fst (translate (silent tr) fmt ag txt tgt src w) = Inr s" by simp
  qed
  show ?thesis unfolding silent_def [symmetric]
    using 1 2 3 4 by (intro conjI)
qed

theorem progress_callback_is_observational_witness:
  "fst (translate example_translator example_fmt bonjour_agent (py ''Hello'') (py ''fr'') None start)
     = fst (translate (example_translator\<lparr>progress_callback := None\<rparr>) example_fmt bonjour_agent
         (py ''Hello'') (py ''fr'') None start)
   \<and> fst (translate (example_translator\<lparr>progress_callback := Some raising_callback\<rparr>) example_fmt
        bonjour_agent (py ''Hello'') (py ''fr'') None start)
     = Inl (CallbackError (py ''Translating: Bon''))"
proof -
  have "fst (translate (example_translator\<lparr>progress_callback := Some raising_callback\<rparr>) example_fmt
        bonjour_agent (py ''Hello'') (py ''fr'') None start)
     = Inl (CallbackError (py ''Translating: Bon''))"
    by (simp add: translate_def translate_async_def Let_def example_translator_def Translator_def
        bonjour_agent_def bonjour_events_def notify_def raising_callback_def start_def
        preview_of_def strip_def isspace_def py_def initial_state_def)
  moreover have "fst (translate example_translator example_fmt bonjour_agent (py ''Hello'') (py ''fr'')
       None start)
     = fst (translate (example_translator\<lparr>progress_callback := None\<rparr>) example_fmt bonjour_agent
         (py ''Hello'') (py ''fr'') None start)"
    by (rule progress_callback_is_observational [THEN conjunct2, THEN conjunct1, THEN mp,
          OF callback_returns_example])
  ultimately show ?thesis by (intro conjI)
qed

text \<open>
  C9.  \<open>translate\<close> without a source language is \<open>translate\<close> with the detected one:
  the language is detected before the prompt is built, so the request is the one built
  from the display names of \<open>detect(text)\<close> and of the target, and that prompt is what
  the one client opened is given.
\<close>

theorem translate_detects_missing_source:
  "translate tr fmt ag txt tgt None w = translate tr fmt ag txt tgt (Some (detect txt)) w
   \<and> translate tr fmt ag txt tgt None w =
       translate_async tr fmt ag
         (build_prompt (get_language_name (detect txt)) (get_language_name tgt) txt) w
   \<and> opened (snd (translate tr fmt ag txt tgt None w)) =
       opened w @ [(client_options tr,
         build_prompt (get_language_name (detect txt)) (get_language_name tgt) txt)]"
proof -
  have 1: "translate tr fmt ag txt tgt None w = translate tr fmt ag txt tgt (Some (detect txt)) w"
    by (simp add: translate_def)
  have 2: "translate tr fmt ag txt tgt None w =
       translate_async tr fmt ag
         (build_prompt (get_language_name (detect txt)) (get_language_name tgt) txt) w"
    by (simp add: translate_def Let_def)
  have 3: "opened (snd (translate tr fmt ag txt tgt None w)) =
       opened w @ [(client_options tr,
         build_prompt (get_language_name (detect txt)) (get_language_name tgt) txt)]"
    using translate_follows [of tr w "txt" tgt None fmt ag]
    by (simp add: follows_def translate_prompt_def)
  from 1 2 3 show ?thesis by (intro conjI)
qed

theorem translate_detects_missing_source_witness:
  "opened (snd (translate example_translator example_fmt bonjour_agent [0x3053] (py ''en'') None
       start)) =
     [(client_options example_translator,
       build_prompt (py ''Japanese'') (py ''English'') [0x3053])]
   \<and> opened (snd (translate example_translator example_fmt bonjour_agent (py ''Hello'') (py ''fr'')
       None start)) =
     [(client_options example_translator,
       build_prompt (py ''English'') (py ''French'') (py ''Hello''))]"
proof -
  have d: "detect [0x3053] = py ''ja''" "detect (py ''Hello'') = py ''en''"
    by (simp_all add: japanese_ranges_def py_def)
  have n: "get_language_name (py ''ja'') = py ''Japanese''"
    "get_language_name (py ''en'') = py ''English''"
    "get_language_name (py ''fr'') = py ''French''"
    by (simp_all add: get_language_name_def table_get_def LANGUAGE_NAMES_def)
  have 1: "opened (snd (translate example_translator example_fmt bonjour_agent [0x3053] (py ''en'')
       None start)) =
     opened start @ [(client_options example_translator,
       build_prompt (get_language_name (detect [0x3053])) (get_language_name (py ''en''))
         [0x3053])]"
    by (rule translate_detects_missing_source [THEN conjunct2, THEN conjunct2])
  have 2: "opened (snd (translate example_translator example_fmt bonjour_agent (py ''Hello'')
       (py ''fr'') None start)) =
     opened start @ [(client_options example_translator,
       build_prompt (get_language_name (detect (py ''Hello''))) (get_language_name (py ''fr''))
         (py ''Hello''))]"
    by (rule translate_detects_missing_source [THEN conjunct2, THEN conjunct2])
  show ?thesis unfolding 1 2 d n by (simp add: start_def)
qed

subsection \<open>The configuration store\<close>

lemma set_key_dict:
  "config_data c = PDict d \<Longrightarrow>
     set_key h k v (c, disk) =
       (Inr (), c\<lparr>config_data := PDict (fmupd (KStr k) v d)\<rparr>,
        Some (safe_dump h (PDict (fmupd (KStr k) v d))))"
  by (simp add: set_key_def save_config_def)

lemma set_key_not_dict:
  "\<forall>d. config_data c \<noteq> PDict d \<Longrightarrow> set_key h k v (c, disk) = (Inl TypeError, c, disk)"
  by (cases "config_data c") (simp_all add: set_key_def)

lemma set_key_cases:
  assumes "set_key h k v (c, disk) = (r, c', disk')"
  obtains (assigned) d where "config_data c = PDict d" "r = Inr ()"
      "c' = c\<lparr>config_data := PDict (fmupd (KStr k) v d)\<rparr>"
      "disk' = Some (safe_dump h (PDict (fmupd (KStr k) v d)))"
  | (raised) "r = Inl TypeError" "c' = c" "disk' = disk"
proof (cases "\<exists>d. config_data c = PDict d")
  case True
  then obtain d where d: "config_data c = PDict d" by blast
  from set_key_dict [OF d, of h k v disk] assms assigned [OF d] show ?thesis by simp
next
  case False
  then have "\<forall>d. config_data c \<noteq> PDict d" by blast
  from set_key_not_dict [OF this, of h k v disk] assms raised show ?thesis by simp
qed

lemma Config_reload:
  assumes "reloads h (PDict (fmupd k v d))"
  shows "Config h (Some (safe_dump h (PDict (fmupd k v d)))) =
           (Inr \<lparr>config_file = config_path h, config_data = PDict (fmupd k v d)\<rparr>,
            Some (safe_dump h (PDict (fmupd k v d))))"
  using assms by (simp add: Config_def load_config_def reloads_def)

lemma others_unchanged_fmupd:
  "config_data c = PDict d \<Longrightarrow> config_data c' = PDict (fmupd (KStr k) v d) \<Longrightarrow>
     others_unchanged k c c'"
  by (auto simp: others_unchanged_def get_def stored_def)

lemma others_unchanged_default_model:
  "others_unchanged k c c' \<Longrightarrow> k \<noteq> py ''default_model'' \<Longrightarrow> default_model c' = default_model c"
  by (simp add: others_unchanged_def default_model_def get_def)

lemma others_unchanged_native_language:
  "others_unchanged k c c' \<Longrightarrow> k \<noteq> py ''native_language'' \<Longrightarrow>
     native_language h c' = native_language h c"
  by (simp add: others_unchanged_def native_language_def get_def)

lemma set_key_frame:
  assumes s: "set_key h k v (c, disk) = (r, c', disk')"
  shows "others_unchanged k c c'
         \<and> (r = Inr () \<and> reloads h (config_data c') \<longrightarrow>
              (\<exists>c''. Config h disk' = (Inr c'', disk') \<and> others_unchanged k c c''))
         \<and> (r \<noteq> Inr () \<longrightarrow> c' = c \<and> disk' = disk)"
  using s
proof (cases rule: set_key_cases)
  case (assigned d)
  have 1: "others_unchanged k c c'"
    using assigned by (simp add: others_unchanged_fmupd)
  have 2: "reloads h (config_data c') \<longrightarrow> Config h disk' =
      (Inr \<lparr>config_file = config_path h, config_data = PDict (fmupd (KStr k) v d)\<rparr>, disk')"
    using Config_reload [of h "KStr k" v d] assigned by simp
  have 3: "others_unchanged k c \<lparr>config_file = config_path h, config_data = PDict (fmupd (KStr k) v d)\<rparr>"
    using assigned by (simp add: others_unchanged_fmupd)
  from 1 2 3 assigned show ?thesis by auto
next
  case raised
  then show ?thesis by (simp add: others_unchanged_def)
qed

lemma pyyaml_reloads_plain:
  "reloads pyyaml_host
     (PDict (fmupd (KStr (py ''native_language'')) (PStr (py ''fr''))
        (fmupd (KStr (py ''default_model'')) (PStr (py ''sonnet''))
          (fmupd (KStr (py ''native_language'')) (PStr (py ''ja'')) fmempty))))"
  by (simp add: reloads_def pyyaml_host_def pyyaml_load_def py_def fmmap_fmupd)

text \<open>
  C5 as the specification words it, for every value, does not hold: a native language
  holding U+0085 is saved, and the store loaded again has a space in its place.
\<close>

theorem native_language_with_break_not_reloaded:
  "fst (set_native_language pyyaml_host (PStr [0x61, 0x85, 0x62]) (example_config, None)) = Inr ()
   \<and> reloaded_native_language pyyaml_host
        (snd (snd (set_native_language pyyaml_host (PStr [0x61, 0x85, 0x62])
           (example_config, None))))
       = Inr (PStr [0x61, 0x20, 0x62])
   \<and> reloaded_native_language pyyaml_host
        (snd (snd (set_native_language pyyaml_host (PStr [0x61, 0x85, 0x62])
           (example_config, None))))
       \<noteq> Inr (PStr [0x61, 0x85, 0x62])"
  by (simp add: set_native_language_def set_key_def save_config_def example_config_def
      reloaded_native_language_def Config_def load_config_def native_language_def
      pyyaml_host_def pyyaml_load_def fmmap_fmupd)

text \<open>
  C5, as amended.  Setting \<open>native_language\<close> to \<open>v\<close> and then loading the store again
  from the file gives \<open>native_language = v\<close> (as does the store in memory) whenever
  PyYAML loads the saved document back as it was dumped.  The assignment is made
  whenever the loaded document is a dictionary.
\<close>

theorem native_language_round_trip:
  assumes "set_native_language h v (c, disk) = (Inr (), c', disk')"
    and "reloads h (config_data c')"
  shows "native_language h c' = Inr v
         \<and> (\<exists>c''. Config h disk' = (Inr c'', disk') \<and> native_language h c'' = Inr v)"
  using assms(1) unfolding set_native_language_def
proof (cases rule: set_key_cases)
  case (assigned d)
  have "Config h disk' =
      (Inr \<lparr>config_file = config_path h,
             config_data = PDict (fmupd (KStr (py ''native_language'')) v d)\<rparr>, disk')"
    using Config_reload [of h "KStr (py ''native_language'')" v d] assigned assms(2) by simp
  then show ?thesis using assigned by (simp add: native_language_def)
next
  case raised
  then show ?thesis by simp
qed

theorem native_language_round_trip_witness:
  "fst (set_native_language pyyaml_host (PStr (py ''fr'')) (example_config, None)) = Inr ()
   \<and> (\<exists>c''. fst (Config pyyaml_host
          (snd (snd (set_native_language pyyaml_host (PStr (py ''fr'')) (example_config, None)))))
          = Inr c''
        \<and> native_language pyyaml_host c'' = Inr (PStr (py ''fr'')))"
proof -
  obtain c' disk' where
    s: "set_native_language pyyaml_host (PStr (py ''fr'')) (example_config, None) = (Inr (), c', disk')"
    and c': "config_data c' =
       PDict (fmupd (KStr (py ''native_language'')) (PStr (py ''fr''))
        (fmupd (KStr (py ''default_model'')) (PStr (py ''sonnet''))
          (fmupd (KStr (py ''native_language'')) (PStr (py ''ja'')) fmempty)))"
    by (simp add: set_native_language_def set_key_def example_config_def)
  have r: "reloads pyyaml_host (config_data c')"
    unfolding c' by (rule pyyaml_reloads_plain)
  from native_language_round_trip [OF s r] s
  show ?thesis by auto
qed

text \<open>
  C10 as the specification words it does not hold of the store loaded again: setting
  \<open>native_language\<close> rewrites the whole file, and a \<open>default_model\<close> holding U+0085
  comes back with a space in its place.
\<close>

theorem default_model_with_break_changed_by_reload:
  "default_model break_config = Inr (PStr [0x61, 0x85, 0x62])
   \<and> fst (set_native_language pyyaml_host (PStr (py ''fr'')) (break_config, None)) = Inr ()
   \<and> reloaded_default_model pyyaml_host
        (snd (snd (set_native_language pyyaml_host (PStr (py ''fr'')) (break_config, None))))
       = Inr (PStr [0x61, 0x20, 0x62])
   \<and> reloaded_default_model pyyaml_host
        (snd (snd (set_native_language pyyaml_host (PStr (py ''fr'')) (break_config, None))))
       \<noteq> default_model break_config"
  by (simp add: set_native_language_def set_key_def save_config_def break_config_def
      reloaded_default_model_def Config_def load_config_def default_model_def
      pyyaml_host_def pyyaml_load_def fmmap_fmupd)

text \<open>
  C10, as amended.  Setting one key leaves the value of every other stored key, of
  whatever type, as it was in the store in memory: after setting \<open>native_language\<close> the
  value of \<open>default_model\<close> is unchanged, after setting \<open>default_model\<close> the value of
  \<open>native_language\<close> is unchanged, and \<open>set\<close> on a key \<open>k\<close> changes no other key.  The
  store loaded again from the file has the same values whenever PyYAML loads the saved
  document back as it was dumped.  When the assignment raises, neither the store nor
  the file changes.
\<close>

theorem set_leaves_other_keys_unchanged:
  "(set_native_language h v (c, disk) = (r, c', disk') \<longrightarrow>
      default_model c' = default_model c
      \<and> others_unchanged (py ''native_language'') c c'
      \<and> (r = Inr () \<and> reloads h (config_data c') \<longrightarrow>
           (\<exists>c''. Config h disk' = (Inr c'', disk') \<and> default_model c'' = default_model c
              \<and> others_unchanged (py ''native_language'') c c''))
      \<and> (r \<noteq> Inr () \<longrightarrow> c' = c \<and> disk' = disk))
   \<and> (set_default_model h v (c, disk) = (r, c', disk') \<longrightarrow>
      native_language h c' = native_language h c
      \<and> others_unchanged (py ''default_model'') c c'
      \<and> (r = Inr () \<and> reloads h (config_data c') \<longrightarrow>
           (\<exists>c''. Config h disk' = (Inr c'', disk')
              \<and> native_language h c'' = native_language h c
              \<and> others_unchanged (py ''default_model'') c c''))
      \<and> (r \<noteq> Inr () \<longrightarrow> c' = c \<and> disk' = disk))
   \<and> (set_key h k v (c, disk) = (r, c', disk') \<longrightarrow>
      others_unchanged k c c'
      \<and> (r = Inr () \<and> reloads h (config_data c') \<longrightarrow>
           (\<exists>c''. Config h disk' = (Inr c'', disk') \<and> others_unchanged k c c''))
      \<and> (r \<noteq> Inr () \<longrightarrow> c' = c \<and> disk' = disk))"
proof -
  have n: "py ''native_language'' \<noteq> py ''default_model''" by simp
  have 1: "set_native_language h v (c, disk) = (r, c', disk') \<longrightarrow>
      default_model c' = default_model c
      \<and> others_unchanged (py ''native_language'') c c'
      \<and> (r = Inr () \<and> reloads h (config_data c') \<longrightarrow>
           (\<exists>c''. Config h disk' = (Inr c'', disk') \<and> default_model c'' = default_model c
              \<and> others_unchanged (py ''native_language'') c c''))
      \<and> (r \<noteq> Inr () \<longrightarrow> c' = c \<and> disk' = disk)"
    unfolding set_native_language_def
    using set_key_frame [of h "py ''native_language''" v c disk r c' disk']
      others_unchanged_default_model [OF _ n]
    by blast
  have 2: "set_default_model h v (c, disk) = (r, c', disk') \<longrightarrow>
      native_language h c' = native_language h c
      \<and> others_unchanged (py ''default_model'') c c'
      \<and> (r = Inr () \<and> reloads h (config_data c') \<longrightarrow>
           (\<exists>c''. Config h disk' = (Inr c'', disk')
              \<and> native_language h c'' = native_language h c
              \<and> others_unchanged (py ''default_model'') c c''))
      \<and> (r \<noteq> Inr () \<longrightarrow> c' = c \<and> disk' = disk)"
    unfolding set_default_model_def
    using set_key_frame [of h "py ''default_model''" v c disk r c' disk']
      others_unchanged_native_language [OF _ n [symmetric], of _ _ h]
    by blast
  have 3: "set_key h k v (c, disk) = (r, c', disk') \<longrightarrow>
      others_unchanged k c c'
      \<and> (r = Inr () \<and> reloads h (config_data c') \<longrightarrow>
           (\<exists>c''. Config h disk' = (Inr c'', disk') \<and> others_unchanged k c c''))
      \<and> (r \<noteq> Inr () \<longrightarrow> c' = c \<and> disk' = disk)"
    using set_key_frame [of h k v c disk r c' disk'] by blast
  from 1 2 3 show ?thesis by (intro conjI)
qed

theorem set_leaves_other_keys_unchanged_witness:
  "default_model (fst (snd (set_native_language pyyaml_host (PStr (py ''fr'')) (example_config, None))))
     = Inr (PStr (py ''sonnet''))
   \<and> (\<exists>c''. fst (Config pyyaml_host
          (snd (snd (set_native_language pyyaml_host (PStr (py ''fr'')) (example_config, None)))))
          = Inr c''
        \<and> default_model c'' = Inr (PStr (py ''sonnet'')))"
proof -
  obtain c' disk' where
    s: "set_native_language pyyaml_host (PStr (py ''fr'')) (example_config, None) = (Inr (), c', disk')"
    and c': "config_data c' =
       PDict (fmupd (KStr (py ''native_language'')) (PStr (py ''fr''))
        (fmupd (KStr (py ''default_model'')) (PStr (py ''sonnet''))
          (fmupd (KStr (py ''native_language'')) (PStr (py ''ja'')) fmempty)))"
    by (simp add: set_native_language_def set_key_def example_config_def)
  have r: "reloads pyyaml_host (config_data c')"
    unfolding c' by (rule pyyaml_reloads_plain)
  have d: "default_model example_config = Inr (PStr (py ''sonnet''))"
    by (simp add: default_model_def example_config_def)
  note t = set_leaves_other_keys_unchanged [of pyyaml_host "PStr (py ''fr'')" example_config
      None "Inr ()" c' disk' "py ''k''", THEN conjunct1, THEN mp, OF s]
  from t have a: "default_model c' = default_model example_config" by blast
  from t r obtain c'' where
    b: "Config pyyaml_host disk' = (Inr c'', disk')"
       "default_model c'' = default_model example_config" by blast
  have "fst (Config pyyaml_host disk') = Inr c'' \<and> default_model c'' = Inr (PStr (py ''sonnet''))"
    using b d by simp
  then show ?thesis using s a d by auto
qed

end
